theory Spec2Isabelle
  imports Main "HOL-Library.Word"
begin

unbundle bit_operations_syntax

section \<open>Bytes, Python slices and exceptions\<close>

type_synonym byte = "8 word"
type_synonym u32 = "32 word"

text \<open>The exceptions the modelled code can raise. \<open>OtherError\<close> carries the message of an
  exception raised by a collaborator (file system, PDF reader, validation library).\<close>

datatype py_error = IndexError | UnboundLocalError | OtherError string

text \<open>Python's \<open>xs[i:j]\<close> (step 1): a negative bound counts from the end, every bound is
  clamped to \<open>0 .. len(xs)\<close>, and an empty or inverted range gives the empty sequence.
  Slicing never raises.\<close>

definition py_slice :: "'a list \<Rightarrow> int \<Rightarrow> int \<Rightarrow> 'a list" where
  "py_slice xs i j =
     (let n = int (length xs);
          lo = (if i < 0 then max (i + n) 0 else min i n);
          hi = (if j < 0 then max (j + n) 0 else min j n)
      in if lo < hi then take (nat (hi - lo)) (drop (nat lo) xs) else [])"

text \<open>Python's \<open>xs[k]\<close> for a literal index \<open>k \<ge> 0\<close>: IndexError past the end.\<close>

definition py_item :: "'a list \<Rightarrow> nat \<Rightarrow> py_error + 'a" where
  "py_item xs k = (if k < length xs then Inr (xs ! k) else Inl IndexError)"

section \<open>hashlib.sha256 (FIPS 180-4) and bytes.hex\<close>

text \<open>\<open>compute_sha256_range\<close> calls \<open>hashlib.sha256(data).hexdigest()\<close>. The hash is the
  library's; it is modelled here on 32-bit words as the standard defines it, so that the
  digest of a concrete message can be computed.\<close>

definition rotr :: "nat \<Rightarrow> u32 \<Rightarrow> u32" where
  "rotr n x = drop_bit n x OR push_bit (32 - n) x"

definition Ch :: "u32 \<Rightarrow> u32 \<Rightarrow> u32 \<Rightarrow> u32" where
  "Ch x y z = (x AND y) XOR (NOT x AND z)"

definition Maj :: "u32 \<Rightarrow> u32 \<Rightarrow> u32 \<Rightarrow> u32" where
  "Maj x y z = (x AND y) XOR (x AND z) XOR (y AND z)"

definition bsig0 :: "u32 \<Rightarrow> u32" where
  "bsig0 x = rotr 2 x XOR rotr 13 x XOR rotr 22 x"

definition bsig1 :: "u32 \<Rightarrow> u32" where
  "bsig1 x = rotr 6 x XOR rotr 11 x XOR rotr 25 x"

definition ssig0 :: "u32 \<Rightarrow> u32" where
  "ssig0 x = rotr 7 x XOR rotr 18 x XOR drop_bit 3 x"

definition ssig1 :: "u32 \<Rightarrow> u32" where
  "ssig1 x = rotr 17 x XOR rotr 19 x XOR drop_bit 10 x"

text \<open>The 64 round constants (the first 32 bits of the fractional parts of the cube
  roots of the first 64 primes), in decimal, and after them the initial hash value.\<close>

definition K256 :: "u32 list" where
  "K256 =
    [1116352408, 1899447441, 3049323471, 3921009573, 961987163, 1508970993,
     2453635748, 2870763221, 3624381080, 310598401, 607225278, 1426881987,
     1925078388, 2162078206, 2614888103, 3248222580, 3835390401, 4022224774,
     264347078, 604807628, 770255983, 1249150122, 1555081692, 1996064986,
     2554220882, 2821834349, 2952996808, 3210313671, 3336571891, 3584528711,
     113926993, 338241895, 666307205, 773529912, 1294757372, 1396182291,
     1695183700, 1986661051, 2177026350, 2456956037, 2730485921, 2820302411,
     3259730800, 3345764771, 3516065817, 3600352804, 4094571909, 275423344,
     430227734, 506948616, 659060556, 883997877, 958139571, 1322822218,
     1537002063, 1747873779, 1955562222, 2024104815, 2227730452, 2361852424,
     2428436474, 2756734187, 3204031479, 3329325298]"

type_synonym sha_state = "u32 \<times> u32 \<times> u32 \<times> u32 \<times> u32 \<times> u32 \<times> u32 \<times> u32"

definition H256 :: sha_state where
  "H256 = (0x6a09e667, 0xbb67ae85, 0x3c6ef372, 0xa54ff53a,
           0x510e527f, 0x9b05688c, 0x1f83d9ab, 0x5be0cd19)"

definition be64 :: "nat \<Rightarrow> byte list" where
  "be64 n = (let w = (of_nat n :: 64 word)
             in [ucast (drop_bit 56 w), ucast (drop_bit 48 w), ucast (drop_bit 40 w),
                 ucast (drop_bit 32 w), ucast (drop_bit 24 w), ucast (drop_bit 16 w),
                 ucast (drop_bit 8 w), ucast w])"

definition pad :: "byte list \<Rightarrow> byte list" where
  "pad msg = msg @ [0x80] @ replicate ((119 - length msg mod 64) mod 64) 0
               @ be64 (8 * length msg)"

fun be_words :: "byte list \<Rightarrow> u32 list" where
  "be_words (a # b # c # d # rest) =
     (push_bit 24 (ucast a) OR push_bit 16 (ucast b) OR push_bit 8 (ucast c) OR ucast d)
       # be_words rest"
| "be_words _ = []"

fun extend_schedule :: "nat \<Rightarrow> u32 list \<Rightarrow> u32 list" where
  "extend_schedule 0 w = w"
| "extend_schedule (Suc n) w =
     (let t = length w
      in extend_schedule n
           (w @ [ssig1 (w ! (t - 2)) + w ! (t - 7) + ssig0 (w ! (t - 15)) + w ! (t - 16)]))"

definition sha_round :: "sha_state \<Rightarrow> u32 \<times> u32 \<Rightarrow> sha_state" where
  "sha_round s kw = (case (s, kw) of ((a, b, c, d, e, f, g, h), (k, w)) \<Rightarrow>
     let t1 = h + bsig1 e + Ch e f g + k + w;
          t2 = bsig0 a + Maj a b c
      in (t1 + t2, a, b, c, d + t1, e, f, g))"

definition add_state :: "sha_state \<Rightarrow> sha_state \<Rightarrow> sha_state" where
  "add_state s s' = (case (s, s') of ((a, b, c, d, e, f, g, h), (a', b', c', d', e', f', g', h')) \<Rightarrow>
     (a + a', b + b', c + c', d + d', e + e', f + f', g + g', h + h'))"

definition compress :: "sha_state \<Rightarrow> byte list \<Rightarrow> sha_state" where
  "compress hs block =
     add_state hs (foldl sha_round hs (zip K256 (extend_schedule 48 (be_words block))))"

function blocks :: "byte list \<Rightarrow> byte list list" where
  "blocks bs = (if bs = [] then [] else take 64 bs # blocks (drop 64 bs))"
  by pat_completeness auto
termination
  by (relation "measure length") auto

declare blocks.simps [simp del]

definition be32 :: "u32 \<Rightarrow> byte list" where
  "be32 w = [ucast (drop_bit 24 w), ucast (drop_bit 16 w), ucast (drop_bit 8 w), ucast w]"

definition state_bytes :: "sha_state \<Rightarrow> byte list" where
  "state_bytes s = (case s of (a, b, c, d, e, f, g, h) \<Rightarrow> concat (map be32 [a, b, c, d, e, f, g, h]))"

definition sha256_digest :: "byte list \<Rightarrow> byte list" where
  "sha256_digest msg = state_bytes (foldl compress H256 (blocks (pad msg)))"

text \<open>\<open>bytes.hex()\<close>: two lowercase hexadecimal digits per byte.\<close>

definition hex_digit :: "nat \<Rightarrow> char" where
  "hex_digit n = ''0123456789abcdef'' ! (n mod 16)"

definition hex_byte :: "byte \<Rightarrow> string" where
  "hex_byte b = [hex_digit (unat b div 16), hex_digit (unat b mod 16)]"

definition bytes_hex :: "byte list \<Rightarrow> string" where
  "bytes_hex bs = concat (map hex_byte bs)"

definition sha256_hexdigest :: "byte list \<Rightarrow> string" where
  "sha256_hexdigest data = bytes_hex (sha256_digest data)"

section \<open>verify_pdf.py: compute_sha256_range\<close>

text \<open>
  \<^verbatim>\<open>
  def compute_sha256_range(pdf_bytes: bytes, byte_range):
      b = list(byte_range)
      data = pdf_bytes[b[0]:b[0]+b[1]] + pdf_bytes[b[2]:b[2]+b[3]]
      return hashlib.sha256(data).hexdigest()
  \<close>
  The entries of \<open>byte_range\<close> are Python integers. Indexing \<open>b\<close> raises IndexError when
  it has fewer than four entries; entries after the fourth are ignored.\<close>

definition compute_sha256_range :: "byte list \<Rightarrow> int list \<Rightarrow> py_error + string" where
  "compute_sha256_range pdf_bytes byte_range =
     (let b = byte_range in
      case py_item b 0 of Inl e \<Rightarrow> Inl e | Inr b0 \<Rightarrow>
      case py_item b 1 of Inl e \<Rightarrow> Inl e | Inr b1 \<Rightarrow>
      case py_item b 2 of Inl e \<Rightarrow> Inl e | Inr b2 \<Rightarrow>
      case py_item b 3 of Inl e \<Rightarrow> Inl e | Inr b3 \<Rightarrow>
        Inr (sha256_hexdigest
               (py_slice pdf_bytes b0 (b0 + b1) @ py_slice pdf_bytes b2 (b2 + b3))))"

text \<open>The spec's reading of a span: the bytes at positions \<open>offset\<close> up to, and without,
  \<open>offset + length\<close>.\<close>

definition spec_span :: "'a list \<Rightarrow> int \<Rightarrow> int \<Rightarrow> 'a list" where
  "spec_span doc off len = map (\<lambda>k. doc ! k) [nat off ..< nat (off + len)]"

text \<open>The same span cut off at the end of the document.\<close>

definition clamped_span :: "'a list \<Rightarrow> int \<Rightarrow> int \<Rightarrow> 'a list" where
  "clamped_span doc off len =
     map (\<lambda>k. doc ! k) [min (nat off) (length doc) ..< min (nat (off + len)) (length doc)]"

section \<open>verify_pdf.py: format_fp\<close>

text \<open>
  \<^verbatim>\<open>
  def format_fp(fp):
      if fp is None:
          return "N/A"
      if isinstance(fp, (bytes, bytearray)):
          h = fp.hex().upper()
      else:
          s = str(fp)
          h = re.sub(r"[^0-9A-Fa-f]", "", s).upper()
          if not h:
              return s
          h = s
      return " ".join(h[i:i+2] for i in range(0, len(h), 2))
  \<close>
  The argument is \<open>None\<close>, a byte string, or any other object, which the function only
  reads through \<open>str(fp)\<close>: \<open>FpOther t s\<close> is such an object, with truth value \<open>t\<close> (which
  \<open>a or b\<close> in main tests) and \<open>str(fp) = s\<close>. A string \<open>s\<close> is the object \<open>FpStr s\<close>: it is
  true when it is not empty, and \<open>str\<close> returns it unchanged.\<close>

datatype fp_value = FpNone | FpBytes "byte list" | FpOther bool string

abbreviation FpStr :: "string \<Rightarrow> fp_value" where
  "FpStr s \<equiv> FpOther (s \<noteq> []) s"

definition is_hex_char :: "char \<Rightarrow> bool" where
  "is_hex_char c = (c \<in> set ''0123456789ABCDEFabcdef'')"

definition upper_char :: "char \<Rightarrow> char" where
  "upper_char c =
     (case map_of (zip ''abcdefghijklmnopqrstuvwxyz'' ''ABCDEFGHIJKLMNOPQRSTUVWXYZ'') c of
        Some u \<Rightarrow> u
      | None \<Rightarrow> c)"

definition str_upper :: "string \<Rightarrow> string" where
  "str_upper s = map upper_char s"

text \<open>\<open>h[i:i+2] for i in range(0, len(h), 2)\<close>: consecutive pairs, a single last element
  when the length is odd.\<close>

fun pairs :: "'a list \<Rightarrow> 'a list list" where
  "pairs [] = []"
| "pairs [a] = [[a]]"
| "pairs (a # b # rest) = [a, b] # pairs rest"

fun str_join :: "string \<Rightarrow> string list \<Rightarrow> string" where
  "str_join sep [] = []"
| "str_join sep [x] = x"
| "str_join sep (x # y # ys) = x @ sep @ str_join sep (y # ys)"

definition format_fp :: "fp_value \<Rightarrow> string" where
  "format_fp fp =
     (case fp of
        FpNone \<Rightarrow> ''N/A''
      | FpBytes bs \<Rightarrow> (let h = str_upper (bytes_hex bs) in str_join '' '' (pairs h))
      | FpOther t s \<Rightarrow>
          (let h = str_upper (filter is_hex_char s)
           in if h = [] then s
              else (let h = s in str_join '' '' (pairs h))))"

text \<open>The spec's rendering of a fingerprint: uppercase hexadecimal pairs, separated by a
  colon or a space.\<close>

definition is_upper_hex :: "char \<Rightarrow> bool" where
  "is_upper_hex c = (c \<in> set ''0123456789ABCDEF'')"

fun hex_pairs_rendering :: "string \<Rightarrow> bool" where
  "hex_pairs_rendering [a, b] = (is_upper_hex a \<and> is_upper_hex b)"
| "hex_pairs_rendering (a # b # sep # rest) =
     (is_upper_hex a \<and> is_upper_hex b \<and> (sep = CHR '':'' \<or> sep = CHR '' '')
      \<and> hex_pairs_rendering rest)"
| "hex_pairs_rendering _ = False"

section \<open>verify_pdf.py: the objects main reads\<close>

text \<open>Modelled from the spec: the enumeration \<open>ModificationLevel\<close>, which the script imports
  from the signing library; the spec lists its four levels. The script names only
  \<open>NONE\<close> and \<open>FORM_FILLING\<close>.\<close>

datatype ModificationLevel = NONE | FORM_FILLING | ANNOTATION_OR_CONTENT_CHANGE | UNKNOWN

text \<open>The signer's certificate as \<open>get_first_attr\<close> sees it. \<open>subject\<close> is the readable
  rendering of the subject name; a missing attribute is \<open>FpNone\<close>.\<close>

record signer_certificate =
  subject :: string
  sha1_fingerprint :: fp_value
  sha1 :: fp_value
  sha256_fingerprint :: fp_value
  sha256 :: fp_value

text \<open>The validation status as main reads it. Each field is the result of the
  \<open>get_first_attr\<close> lookup of that name (\<open>None\<close> when no such attribute exists or its value
  is \<open>None\<close>). \<open>pretty_print_details\<close> is \<open>None\<close> when the call raises, else the lines of
  its text. A revocation attribute is an object of the library: its truth value and its
  rendering in the log. \<open>signing_time\<close> holds the rendering of the time and of its conversion to
  UTC+7, the latter \<open>None\<close> when \<open>astimezone\<close> raises.\<close>

record signature_status =
  pretty_print_details :: "string list option"
  signer_cert :: "signer_certificate option"
  trusted :: "bool option"
  valid :: "bool option"
  revinfo_validity :: "(bool \<times> string) option"
  revinfo_summary :: "(bool \<times> string) option"
  signing_time :: "(string \<times> string option) option"
  modification_level :: "ModificationLevel option"

record sig_dictionary =
  byte_range :: "int list option"
  contents :: "byte list option"

text \<open>An embedded signature; \<open>sig_object\<close> is \<open>None\<close> when reading it raises.\<close>

record embedded_signature =
  field_name :: "string option"
  sig_object :: "sig_dictionary option"

datatype validation_context = ValidationContext "string list option" bool

text \<open>The four ways \<open>try_validation\<close> calls \<open>validate_pdf_signature\<close>, with the trust
  context each one passes.\<close>

datatype call_args =
    KwVc "validation_context option"
  | KwValidationContext "validation_context option"
  | Positional "validation_context option"
  | NoArgs

datatype validation_outcome =
    Returns "signature_status option"
  | RaisesTypeError string
  | RaisesException string

datatype validation_error = CheckError call_args string | AllFailed "string option"

datatype pem_state = PemMissing | PemLoaded string | PemError string

text \<open>Everything main reads from outside: the clock, the trusted PEM file, the PDF file
  and its parse (\<open>Inl\<close> when opening or parsing raises), and the library's validation
  function.\<close>

record environment =
  now :: string
  pem :: pem_state
  pdf_exists :: bool
  embedded_signatures :: "string + embedded_signature list"
  full_pdf :: "byte list"
  validate_pdf_signature :: "embedded_signature \<Rightarrow> call_args \<Rightarrow> validation_outcome"

text \<open>One constructor per \<open>log(...)\<close> call of the script, in source order, with the values
  the message interpolates.\<close>

datatype msg =
    MsgBanner
  | MsgTime string
  | MsgFile
  | MsgRule
  | MsgRootLoaded
  | MsgNoPem
  | MsgCertError string
  | MsgPdfMissing
  | MsgNoSignature
  | MsgFieldDetected string
  | MsgByteRange "int list option"
  | MsgContentsSize "nat option"
  | MsgSigObjUnreadable
  | MsgHash string
  | MsgNoByteRange
  | MsgVerifyStart
  | MsgValidationError validation_error
  | MsgStatusNone
  | MsgDetailsHeader
  | MsgDetailLine string
  | MsgDetailsFooter
  | MsgSignerHeader
  | MsgSubject string
  | MsgSha1 string
  | MsgSha256 string
  | MsgNoSigner
  | MsgChainTrusted
  | MsgChainValidUnknownRoot
  | MsgChainInvalid
  | MsgRevInfo string
  | MsgNoRevInfo
  | MsgSigningTime string string
  | MsgSigningTimeRaw string
  | MsgNoTimestamp
  | MsgModNone
  | MsgModFormFilling
  | MsgModChangedOrUnknown
  | MsgConclusionHeader
  | MsgConclusionValid
  | MsgConclusionInvalid
  | MsgProcessingError py_error
  | MsgDone

section \<open>verify_pdf.py: try_validation\<close>

text \<open>The loop over the four attempts: a TypeError moves on to the next attempt, any other
  exception ends the loop with an error message, a return ends it with the result.\<close>

fun try_attempts ::
  "(call_args \<Rightarrow> validation_outcome) \<Rightarrow> call_args list \<Rightarrow> string option
     \<Rightarrow> signature_status option \<times> validation_error option" where
  "try_attempts call [] last_err = (None, Some (AllFailed last_err))"
| "try_attempts call (params # rest) last_err =
     (case call params of
        Returns result \<Rightarrow> (result, None)
      | RaisesTypeError te \<Rightarrow> try_attempts call rest (Some te)
      | RaisesException e \<Rightarrow> (None, Some (CheckError params e)))"

definition try_validation ::
  "(call_args \<Rightarrow> validation_outcome) \<Rightarrow> validation_context option
     \<Rightarrow> signature_status option \<times> validation_error option" where
  "try_validation call trust_ctx =
     try_attempts call
       [KwVc trust_ctx, KwValidationContext trust_ctx, Positional trust_ctx, NoArgs] None"

section \<open>verify_pdf.py: main\<close>

text \<open>Truth values of the objects main tests, and Python's \<open>a or b\<close>.\<close>

definition truthy_str :: "string option \<Rightarrow> bool" where
  "truthy_str v = (case v of None \<Rightarrow> False | Some s \<Rightarrow> s \<noteq> [])"

definition truthy_list :: "'a list option \<Rightarrow> bool" where
  "truthy_list v = (case v of None \<Rightarrow> False | Some xs \<Rightarrow> xs \<noteq> [])"

definition truthy_fp :: "fp_value \<Rightarrow> bool" where
  "truthy_fp v =
     (case v of
        FpNone \<Rightarrow> False
      | FpBytes bs \<Rightarrow> bs \<noteq> []
      | FpOther t s \<Rightarrow> t)"

definition truthy_obj :: "(bool \<times> string) option \<Rightarrow> bool" where
  "truthy_obj v = (case v of None \<Rightarrow> False | Some (t, s) \<Rightarrow> t)"

definition or_obj :: "(bool \<times> string) option \<Rightarrow> (bool \<times> string) option \<Rightarrow> (bool \<times> string) option" where
  "or_obj a b = (if truthy_obj a then a else b)"

definition or_fp :: "fp_value \<Rightarrow> fp_value \<Rightarrow> fp_value" where
  "or_fp a b = (if truthy_fp a then a else b)"

text \<open>Lines 109-125: the header and the trust context.\<close>

definition header :: "environment \<Rightarrow> msg list" where
  "header env = [MsgBanner, MsgTime (now env), MsgFile, MsgRule]"

definition trust_context :: "environment \<Rightarrow> msg list \<times> validation_context option" where
  "trust_context env =
     (case pem env of
        PemLoaded cert_root \<Rightarrow> ([MsgRootLoaded], Some (ValidationContext (Some [cert_root]) True))
      | PemMissing \<Rightarrow> ([MsgNoPem], Some (ValidationContext None True))
      | PemError e \<Rightarrow> ([MsgCertError e], None))"

text \<open>Lines 142-149: reading the signature dictionary. The second component is the
  binding of the local variable \<open>br\<close>: \<open>None\<close> when the read raised before assigning it.\<close>

definition read_sig_object :: "embedded_signature \<Rightarrow> msg list \<times> int list option option" where
  "read_sig_object sg =
     (case sig_object sg of
        None \<Rightarrow> ([MsgSigObjUnreadable], None)
      | Some d \<Rightarrow>
          ([MsgByteRange (if truthy_list (byte_range d) then byte_range d else None),
            MsgContentsSize
              (if truthy_list (contents d) then map_option length (contents d) else None)],
           Some (byte_range d)))"

text \<open>Lines 151-158: recomputing the hash. The second component is the exception that
  leaves the block, if any: \<open>br\<close> unbound, or IndexError from a short ByteRange.\<close>

definition recompute_hash :: "byte list \<Rightarrow> int list option option \<Rightarrow> msg list \<times> py_error option" where
  "recompute_hash pdf binding =
     (case binding of
        None \<Rightarrow> ([], Some UnboundLocalError)
      | Some br \<Rightarrow>
          if truthy_list br
          then (case compute_sha256_range pdf (the br) of
                  Inl e \<Rightarrow> ([], Some e)
                | Inr hash_val \<Rightarrow> ([MsgHash hash_val], None))
          else ([MsgNoByteRange], None))"

text \<open>Lines 169-177: the details, skipped in silence when the call raises.\<close>

definition report_details :: "signature_status \<Rightarrow> msg list" where
  "report_details status =
     (case pretty_print_details status of
        None \<Rightarrow> []
      | Some detail \<Rightarrow> MsgDetailsHeader # map MsgDetailLine detail @ [MsgDetailsFooter])"

text \<open>Lines 179-191: the signer.\<close>

definition report_signer :: "signature_status \<Rightarrow> msg list" where
  "report_signer status =
     MsgSignerHeader #
     (case signer_cert status of
        Some cert \<Rightarrow>
          (let fp1 = or_fp (sha1_fingerprint cert) (sha1 cert);
               fp2 = or_fp (sha256_fingerprint cert) (sha256 cert)
           in [MsgSubject (subject cert), MsgSha1 (format_fp fp1), MsgSha256 (format_fp fp2)])
      | None \<Rightarrow> [MsgNoSigner])"

text \<open>Lines 193-201: the certificate chain.\<close>

definition report_chain :: "signature_status \<Rightarrow> msg list" where
  "report_chain status =
     (if trusted status = Some True then [MsgChainTrusted]
      else if valid status = Some True then [MsgChainValidUnknownRoot]
      else [MsgChainInvalid])"

text \<open>Lines 203-208: revocation data.\<close>

definition report_revocation :: "signature_status \<Rightarrow> msg list" where
  "report_revocation status =
     (let rev_info = or_obj (revinfo_validity status) (revinfo_summary status)
      in if truthy_obj rev_info then [MsgRevInfo (snd (the rev_info))] else [MsgNoRevInfo])"

text \<open>Lines 210-220: the signing time.\<close>

definition report_signing_time :: "signature_status \<Rightarrow> msg list" where
  "report_signing_time status =
     (case signing_time status of
        Some (shown, Some vn_time) \<Rightarrow> [MsgSigningTime shown vn_time]
      | Some (shown, None) \<Rightarrow> [MsgSigningTimeRaw shown]
      | None \<Rightarrow> [MsgNoTimestamp])"

text \<open>Lines 222-229: modification after signing.\<close>

definition report_modification :: "signature_status \<Rightarrow> msg list" where
  "report_modification status =
     (let mod_level = modification_level status
      in if mod_level = Some NONE then [MsgModNone]
         else if mod_level = Some FORM_FILLING then [MsgModFormFilling]
         else [MsgModChangedOrUnknown])"

text \<open>Lines 231-236: the conclusion.\<close>

definition report_conclusion :: "signature_status \<Rightarrow> msg list" where
  "report_conclusion status =
     [MsgConclusionHeader,
      if valid status = Some True then MsgConclusionValid else MsgConclusionInvalid]"

definition report_status :: "signature_status \<Rightarrow> msg list" where
  "report_status status =
     report_details status @ report_signer status @ report_chain status
       @ report_revocation status @ report_signing_time status
       @ report_modification status @ report_conclusion status"

text \<open>Line 140: \<open>sig.field_name or 'SignatureField'\<close>.\<close>

definition display_name :: "embedded_signature \<Rightarrow> string" where
  "display_name sg =
     (if truthy_str (field_name sg) then the (field_name sg) else ''SignatureField'')"

text \<open>How the body of the outer \<open>try\<close> (lines 131-236) ends: it runs to its end, it
  returns from main, or an exception reaches the handler of line 238.\<close>

datatype ending = Completed | Returned | Raised py_error

definition verify_signature ::
  "environment \<Rightarrow> validation_context option \<Rightarrow> embedded_signature \<Rightarrow> msg list \<times> ending" where
  "verify_signature env trust_ctx sg =
     (let name = display_name sg;
          (read_log, binding) = read_sig_object sg;
          (hash_log, raised) = recompute_hash (full_pdf env) binding;
          so_far = MsgFieldDetected name # read_log @ hash_log
      in case raised of
           Some e \<Rightarrow> (so_far, Raised e)
         | None \<Rightarrow>
             (let (status, err) = try_validation (validate_pdf_signature env sg) trust_ctx;
                  checked = so_far @ MsgVerifyStart #
                              (case err of Some e \<Rightarrow> [MsgValidationError e] | None \<Rightarrow> [])
              in case status of
                   None \<Rightarrow> (checked @ [MsgStatusNone], Returned)
                 | Some st \<Rightarrow> (checked @ report_status st, Completed)))"

definition process_pdf :: "environment \<Rightarrow> validation_context option \<Rightarrow> msg list \<times> ending" where
  "process_pdf env trust_ctx =
     (case embedded_signatures env of
        Inl e \<Rightarrow> ([], Raised (OtherError e))
      | Inr signatures \<Rightarrow>
          (case signatures of
             [] \<Rightarrow> ([MsgNoSignature], Returned)
           | sg # others \<Rightarrow> verify_signature env trust_ctx sg))"

text \<open>main returns the lines it logged, in order.\<close>

definition main :: "environment \<Rightarrow> msg list" where
  "main env =
     (let (trust_log, trust_ctx) = trust_context env;
          start = header env @ trust_log
      in if \<not> pdf_exists env then start @ [MsgPdfMissing]
         else (case process_pdf env trust_ctx of
                 (lines, Completed) \<Rightarrow> start @ lines @ [MsgDone]
               | (lines, Returned) \<Rightarrow> start @ lines
               | (lines, Raised e) \<Rightarrow> start @ lines @ [MsgProcessingError e, MsgDone]))"

text \<open>Reading a log: the verdicts it holds (one per reported signature), its lines on the
  certificate chain and on modification.\<close>

definition is_verdict :: "msg \<Rightarrow> bool" where
  "is_verdict m = (m = MsgConclusionValid \<or> m = MsgConclusionInvalid)"

definition is_chain_line :: "msg \<Rightarrow> bool" where
  "is_chain_line m = (m = MsgChainTrusted \<or> m = MsgChainValidUnknownRoot \<or> m = MsgChainInvalid)"

definition is_modification_line :: "msg \<Rightarrow> bool" where
  "is_modification_line m =
     (m = MsgModNone \<or> m = MsgModFormFilling \<or> m = MsgModChangedOrUnknown)"

definition is_field_line :: "msg \<Rightarrow> bool" where
  "is_field_line m = (case m of MsgFieldDetected name \<Rightarrow> True | _ \<Rightarrow> False)"

definition is_error_line :: "msg \<Rightarrow> bool" where
  "is_error_line m = (case m of MsgProcessingError e \<Rightarrow> True | _ \<Rightarrow> False)"

definition verdicts :: "msg list \<Rightarrow> msg list" where
  "verdicts lines = filter is_verdict lines"

definition chain_lines :: "msg list \<Rightarrow> msg list" where
  "chain_lines lines = filter is_chain_line lines"

definition modification_lines :: "msg list \<Rightarrow> msg list" where
  "modification_lines lines = filter is_modification_line lines"

text \<open>The lines main logs before it has a validation status.\<close>

definition preliminary :: "msg \<Rightarrow> bool" where
  "preliminary m = (\<not> is_verdict m \<and> \<not> is_chain_line m \<and> \<not> is_modification_line m)"

text \<open>The validation status main reports on, when it gets that far: the file exists, the
  reader lists at least one signature, the hash step raises nothing, and
  \<open>try_validation\<close> returns a status for the first signature.\<close>

definition reported_status :: "environment \<Rightarrow> signature_status option" where
  "reported_status env =
     (if pdf_exists env
      then (case embedded_signatures env of
              Inr (sg # others) \<Rightarrow>
                (case snd (recompute_hash (full_pdf env) (snd (read_sig_object sg))) of
                   Some e \<Rightarrow> None
                 | None \<Rightarrow>
                     fst (try_validation (validate_pdf_signature env sg)
                            (snd (trust_context env))))
            | _ \<Rightarrow> None)
      else None)"

section \<open>Sample inputs\<close>

text \<open>A 250-byte document for the ByteRange \<open>(0, 100, 200, 50)\<close>.\<close>

definition scenario_document :: "byte list" where
  "scenario_document = map of_nat [0 ..< 250]"

text \<open>A status as the library returns it for a valid signature whose chain does not end in
  a trusted root, with a given modification level.\<close>

definition sample_status :: "ModificationLevel option \<Rightarrow> signature_status" where
  "sample_status level =
     \<lparr>pretty_print_details = None, signer_cert = None, trusted = Some False,
      valid = Some True, revinfo_validity = None, revinfo_summary = None,
      signing_time = None, modification_level = level\<rparr>"

definition sample_signature :: "string \<Rightarrow> embedded_signature" where
  "sample_signature name =
     \<lparr>field_name = Some name,
      sig_object = Some \<lparr>byte_range = Some [0, 2, 3, 1], contents = Some [0x30, 0x82]\<rparr>\<rparr>"

text \<open>An existing four-byte file with the given signatures, for which the library's
  validation returns the given result whatever the call.\<close>

definition sample_environment ::
  "embedded_signature list \<Rightarrow> signature_status option \<Rightarrow> environment" where
  "sample_environment signatures result =
     \<lparr>now = ''2025-01-01 00:00:00'', pem = PemMissing, pdf_exists = True,
      embedded_signatures = Inr signatures, full_pdf = [0x25, 0x50, 0x44, 0x46],
      validate_pdf_signature = (\<lambda>sg args. Returns result)\<rparr>"

text \<open>A status for a signature that is neither valid nor trusted.\<close>

definition sample_invalid_status :: signature_status where
  "sample_invalid_status =
     \<lparr>pretty_print_details = None, signer_cert = None, trusted = Some False,
      valid = Some False, revinfo_validity = None, revinfo_summary = None,
      signing_time = None, modification_level = Some NONE\<rparr>"

text \<open>A file with the two signatures \<open>Sig1\<close> and \<open>Sig2\<close>: the library finds \<open>Sig1\<close> invalid,
  and \<open>Sig2\<close> valid with a chain that does not end in a trusted root.\<close>

definition two_signature_environment :: environment where
  "two_signature_environment =
     \<lparr>now = ''2025-01-01 00:00:00'', pem = PemMissing, pdf_exists = True,
      embedded_signatures = Inr [sample_signature ''Sig1'', sample_signature ''Sig2''],
      full_pdf = [0x25, 0x50, 0x44, 0x46],
      validate_pdf_signature =
        (\<lambda>sg args. Returns (Some (if field_name sg = Some ''Sig1'' then sample_invalid_status
                                    else sample_status (Some NONE))))\<rparr>"

section \<open>Facts about slices and the digest\<close>

lemma take_drop_nth:
  "lo + k \<le> length xs \<Longrightarrow> take k (drop lo xs) = map (\<lambda>i. xs ! i) [lo ..< lo + k]"
proof -
  assume le: "lo + k \<le> length xs"
  have "take k (drop lo (map (\<lambda>i. xs ! i) [0 ..< length xs]))
          = map (\<lambda>i. xs ! i) [lo ..< lo + k]"
    using le by (simp only: drop_map take_map drop_upt take_upt add_0)
  then show ?thesis by (simp only: map_nth)
qed

lemma int_slice_nat:
  "(if int a < int b then take (nat (int b - int a)) (drop (nat (int a)) xs) else [])
     = (if a < b then take (b - a) (drop a xs) else [])"
  by (simp add: nat_diff_distrib')

lemma py_slice_clamped:
  assumes "0 \<le> off" "0 \<le> len"
  shows "py_slice doc off (off + len) = clamped_span doc off len"
proof -
  define n where "n = length doc"
  define lo where "lo = min (nat off) n"
  define hi where "hi = min (nat (off + len)) n"
  have lo: "min off (int n) = int lo" using assms by (auto simp: lo_def min_def)
  have hi: "min (off + len) (int n) = int hi" using assms by (auto simp: hi_def min_def)
  have le: "lo \<le> hi" using assms by (auto simp: lo_def hi_def min_def)
  have hi_n: "hi \<le> length doc" by (simp add: hi_def n_def)
  have nonneg: "\<not> off < 0" "\<not> off + len < 0" using assms by auto
  have "py_slice doc off (off + len)
          = (if min off (int n) < min (off + len) (int n)
             then take (nat (min (off + len) (int n) - min off (int n)))
                    (drop (nat (min off (int n))) doc)
             else [])"
    unfolding py_slice_def Let_def n_def by (simp only: nonneg if_False)
  also have "\<dots> = (if int lo < int hi
                    then take (nat (int hi - int lo)) (drop (nat (int lo)) doc) else [])"
    by (simp only: lo hi)
  also have "\<dots> = (if lo < hi then take (hi - lo) (drop lo doc) else [])"
    by (simp only: int_slice_nat)
  finally have sl: "py_slice doc off (off + len)
              = (if lo < hi then take (hi - lo) (drop lo doc) else [])" .
  have cl: "clamped_span doc off len = map (\<lambda>k. doc ! k) [lo ..< hi]"
    by (simp add: clamped_span_def lo_def hi_def n_def)
  show ?thesis
  proof (cases "lo < hi")
    case True
    have "take (hi - lo) (drop lo doc) = map (\<lambda>i. doc ! i) [lo ..< lo + (hi - lo)]"
      by (rule take_drop_nth) (use le hi_n in simp)
    then show ?thesis using True sl cl by simp
  next
    case False
    then show ?thesis using sl cl by simp
  qed
qed

lemma py_slice_in_bounds:
  assumes "0 \<le> off" "0 \<le> len" "off + len \<le> int (length doc)"
  shows "py_slice doc off (off + len) = spec_span doc off len"
proof -
  have "min (nat off) (length doc) = nat off" "min (nat (off + len)) (length doc) = nat (off + len)"
    using assms by (auto simp: min_def)
  then show ?thesis
    using py_slice_clamped [OF assms(1,2), of doc] by (simp add: clamped_span_def spec_span_def)
qed

lemma compute_sha256_range_four:
  "compute_sha256_range doc [o1, l1, o2, l2] =
     Inr (sha256_hexdigest (py_slice doc o1 (o1 + l1) @ py_slice doc o2 (o2 + l2)))"
  by (simp add: compute_sha256_range_def py_item_def)

lemma length_be32: "length (be32 w) = 4"
  by (simp add: be32_def)

lemma length_sha256_digest: "length (sha256_digest msg) = 32"
  by (simp add: sha256_digest_def state_bytes_def length_be32 split: prod.splits)

lemma length_bytes_hex: "length (bytes_hex bs) = 2 * length bs"
  by (induction bs) (simp_all add: bytes_hex_def hex_byte_def)

lemma hex_digit_lower: "hex_digit n \<in> set ''0123456789abcdef''"
  unfolding hex_digit_def by (rule nth_mem) simp

lemma set_bytes_hex: "set (bytes_hex bs) \<subseteq> set ''0123456789abcdef''"
proof (induction bs)
  case Nil
  show ?case by (simp add: bytes_hex_def)
next
  case (Cons b bs)
  have "set (hex_byte b) \<subseteq> set ''0123456789abcdef''"
    unfolding hex_byte_def using hex_digit_lower by simp
  with Cons show ?case by (simp add: bytes_hex_def)
qed

lemma length_sha256_hexdigest: "length (sha256_hexdigest data) = 64"
  by (simp add: sha256_hexdigest_def length_bytes_hex length_sha256_digest)

lemma set_sha256_hexdigest: "set (sha256_hexdigest data) \<subseteq> set ''0123456789abcdef''"
  unfolding sha256_hexdigest_def by (rule set_bytes_hex)

text \<open>The model of the hash computes the standard's test vector for the message \<open>abc\<close>.\<close>

lemma sha256_hexdigest_abc:
  "sha256_hexdigest [0x61, 0x62, 0x63] =
     ''ba7816bf8f01cfea414140de5dae2223b00361a396177a9cb410ff61f20015ad''"
  by code_simp

lemma nth_of_mapped_range:
  "j \<le> n \<Longrightarrow> map (\<lambda>k. map f [0 ..< n] ! k) [i ..< j] = map f [i ..< j]"
  by (rule map_cong) auto

section \<open>The digest over a ByteRange\<close>

text \<open>C1. For a ByteRange \<open>(offset1, length1, offset2, length2)\<close> whose two spans lie within
  the document, the digest operation returns the SHA-256 of the bytes at positions
  \<open>offset1 ..< offset1 + length1\<close> followed by those at \<open>offset2 ..< offset2 + length2\<close>.
  The witness is the scenario of the spec: ByteRange \<open>(0, 100, 200, 50)\<close> on a 250-byte
  document gives the SHA-256 of bytes 0-100 followed by bytes 200-250.\<close>

theorem digest_of_byte_range:
  assumes "0 \<le> offset1" "0 \<le> length1" "0 \<le> offset2" "0 \<le> length2"
    and "offset1 + length1 \<le> int (length documentBytes)"
    and "offset2 + length2 \<le> int (length documentBytes)"
  shows "compute_sha256_range documentBytes [offset1, length1, offset2, length2] =
           Inr (sha256_hexdigest
                  (spec_span documentBytes offset1 length1
                     @ spec_span documentBytes offset2 length2))"
  using assms by (simp add: compute_sha256_range_four py_slice_in_bounds)

theorem digest_of_byte_range_witness:
  "(0::int) + 100 \<le> int (length scenario_document)
     \<and> (200::int) + 50 \<le> int (length scenario_document)
     \<and> compute_sha256_range scenario_document [0, 100, 200, 50] =
         Inr (sha256_hexdigest (map of_nat [0 ..< 100] @ map of_nat [200 ..< 250]))"
  using digest_of_byte_range [of 0 100 200 50 scenario_document]
  by (simp add: scenario_document_def spec_span_def nth_of_mapped_range)

text \<open>C4, as the code has it. The claim asks for a MalformedRangeError when a span leaves
  the document or the spans overlap. The function checks nothing: on the four-byte
  document below, the first span runs past the end and the second overlaps it, and a
  digest comes back.\<close>

theorem digest_accepts_malformed_range_counterexample:
  "compute_sha256_range [10, 20, 30, 40] [2, 9, 1, 2] = Inr (sha256_hexdigest [30, 40, 20, 30])"
  by (simp add: compute_sha256_range_four py_slice_def)

text \<open>C4, amended. For every ByteRange of four non-negative integers, in bounds or not,
  overlapping or not, the digest operation raises nothing and returns the SHA-256 of the
  two spans, each cut off at the end of the document.\<close>

theorem digest_clamps_malformed_range:
  assumes "0 \<le> offset1" "0 \<le> length1" "0 \<le> offset2" "0 \<le> length2"
  shows "compute_sha256_range documentBytes [offset1, length1, offset2, length2] =
           Inr (sha256_hexdigest
                  (clamped_span documentBytes offset1 length1
                     @ clamped_span documentBytes offset2 length2))
         \<and> (\<forall>e. compute_sha256_range documentBytes [offset1, length1, offset2, length2] \<noteq> Inl e)"
  using assms by (simp add: compute_sha256_range_four py_slice_clamped)

theorem digest_clamps_malformed_range_witness:
  "compute_sha256_range [7, 8] [1, 4, 0, 3] = Inr (sha256_hexdigest [8, 7, 8])"
  using digest_clamps_malformed_range [of 1 4 0 3 "[7, 8]"]
  by (simp add: clamped_span_def)

text \<open>C9. On a valid ByteRange the digest operation is deterministic: a second run on the
  same document and the same range returns the same digest value as the first.\<close>

theorem digest_deterministic:
  assumes "0 \<le> offset1" "0 \<le> length1" "0 \<le> offset2" "0 \<le> length2"
    and "offset1 + length1 \<le> int (length documentBytes)"
    and "offset2 + length2 \<le> int (length documentBytes)"
    and "documentBytes' = documentBytes" and "range' = [offset1, length1, offset2, length2]"
  shows "\<exists>d. compute_sha256_range documentBytes [offset1, length1, offset2, length2] = Inr d
             \<and> compute_sha256_range documentBytes' range' = Inr d"
  using assms by (simp add: compute_sha256_range_four)

theorem digest_deterministic_witness:
  "\<exists>d. compute_sha256_range [1, 2, 3, 4] [0, 2, 3, 1] = Inr d
       \<and> compute_sha256_range [1, 2, 3, 4] [0, 2, 3, 1] = Inr d"
  using digest_deterministic [of 0 2 3 1 "[1, 2, 3, 4]" "[1, 2, 3, 4]" "[0, 2, 3, 1]"]
  by simp

text \<open>C10. On a \<open>byte_range\<close> of four non-negative integers \<open>compute_sha256_range\<close> never
  raises, also when a span leaves \<open>pdf_bytes\<close>: the slices are cut off at the bytes there
  are, and the result is a string of 64 lowercase hexadecimal digits.\<close>

theorem compute_sha256_range_total:
  assumes "0 \<le> b0" "0 \<le> b1" "0 \<le> b2" "0 \<le> b3"
  shows "\<exists>h. compute_sha256_range pdf_bytes [b0, b1, b2, b3] = Inr h
             \<and> h = sha256_hexdigest (clamped_span pdf_bytes b0 b1 @ clamped_span pdf_bytes b2 b3)
             \<and> length h = 64 \<and> set h \<subseteq> set ''0123456789abcdef''"
  using assms set_sha256_hexdigest
  by (simp add: compute_sha256_range_four py_slice_clamped length_sha256_hexdigest)

theorem compute_sha256_range_total_witness:
  "compute_sha256_range [1, 2, 3] [1, 5, 0, 2] = Inr (sha256_hexdigest [2, 3, 1, 2])
     \<and> length (sha256_hexdigest [2, 3, 1, 2]) = 64
     \<and> set (sha256_hexdigest [2, 3, 1, 2]) \<subseteq> set ''0123456789abcdef''"
  using compute_sha256_range_total [of 1 5 0 2 "[1, 2, 3]"]
  by (simp add: clamped_span_def)

section \<open>Facts about the log of main\<close>

lemma preliminary_header: "m \<in> set (header env) \<Longrightarrow> preliminary m"
  by (auto simp: header_def preliminary_def is_verdict_def is_chain_line_def
        is_modification_line_def)

lemma preliminary_trust_context: "m \<in> set (fst (trust_context env)) \<Longrightarrow> preliminary m"
  by (auto simp: trust_context_def preliminary_def is_verdict_def is_chain_line_def
        is_modification_line_def split: pem_state.splits)

lemma preliminary_read_sig_object: "m \<in> set (fst (read_sig_object sg)) \<Longrightarrow> preliminary m"
  by (auto simp: read_sig_object_def preliminary_def is_verdict_def is_chain_line_def
        is_modification_line_def split: option.splits)

lemma preliminary_recompute_hash: "m \<in> set (fst (recompute_hash pdf binding)) \<Longrightarrow> preliminary m"
  by (auto simp: recompute_hash_def preliminary_def is_verdict_def is_chain_line_def
        is_modification_line_def split: option.splits sum.splits if_splits)

lemma filter_preliminary:
  assumes "\<forall>m \<in> set lines. preliminary m"
  shows "filter is_verdict lines = []" "filter is_chain_line lines = []"
    "filter is_modification_line lines = []"
  using assms by (auto simp: preliminary_def filter_empty_conv)

text \<open>The lines logged for the first signature before its status is reported.\<close>

lemma main_with_status:
  assumes "reported_status env = Some st"
  shows "\<exists>before. main env = before @ report_status st @ [MsgDone]
           \<and> (\<forall>m \<in> set before. preliminary m)"
proof -
  from assms have ex: "pdf_exists env"
    by (simp add: reported_status_def split: if_splits)
  from assms obtain sg others where sigs: "embedded_signatures env = Inr (sg # others)"
    by (auto simp: reported_status_def split: if_splits sum.splits list.splits)
  obtain read_log binding where rd: "read_sig_object sg = (read_log, binding)"
    by (cases "read_sig_object sg")
  obtain hash_log raised where hs: "recompute_hash (full_pdf env) binding = (hash_log, raised)"
    by (cases "recompute_hash (full_pdf env) binding")
  obtain trust_log trust_ctx where tc: "trust_context env = (trust_log, trust_ctx)"
    by (cases "trust_context env")
  obtain status err where tv:
    "try_validation (validate_pdf_signature env sg) trust_ctx = (status, err)"
    by (cases "try_validation (validate_pdf_signature env sg) trust_ctx")
  from assms ex sigs rd hs tc tv have nr: "raised = None" and st: "status = Some st"
    by (auto simp: reported_status_def split: option.splits)
  define name where "name = display_name sg"
  define before where
    "before = header env @ trust_log @ MsgFieldDetected name # read_log @ hash_log
                @ MsgVerifyStart # (case err of Some e \<Rightarrow> [MsgValidationError e] | None \<Rightarrow> [])"
  have m: "main env = before @ report_status st @ [MsgDone]"
    by (simp add: main_def tc ex process_pdf_def sigs verify_signature_def rd hs nr tv st
          before_def name_def Let_def)
  have "preliminary m" if "m \<in> set before" for m
  proof -
    have p1: "preliminary (MsgFieldDetected name)" "preliminary MsgVerifyStart"
      "\<And>e. preliminary (MsgValidationError e)"
      by (simp_all add: preliminary_def is_verdict_def is_chain_line_def is_modification_line_def)
    have p2: "m \<in> set trust_log \<Longrightarrow> preliminary m"
      using preliminary_trust_context [of m env] by (simp add: tc)
    have p3: "m \<in> set read_log \<Longrightarrow> preliminary m"
      using preliminary_read_sig_object [of m sg] by (simp add: rd)
    have p4: "m \<in> set hash_log \<Longrightarrow> preliminary m"
      using preliminary_recompute_hash [of m "full_pdf env" binding] by (simp add: hs)
    from that show ?thesis
      using p1 p2 p3 p4 preliminary_header [of m env]
      by (auto simp: before_def split: option.splits)
  qed
  with m show ?thesis by blast
qed

lemma main_without_status:
  assumes "reported_status env = None"
  shows "\<forall>m \<in> set (main env). preliminary m"
proof
  fix m assume mem: "m \<in> set (main env)"
  obtain trust_log trust_ctx where tc: "trust_context env = (trust_log, trust_ctx)"
    by (cases "trust_context env")
  have p0: "preliminary MsgPdfMissing" "preliminary MsgNoSignature" "preliminary MsgDone"
    "preliminary MsgStatusNone" "preliminary MsgVerifyStart"
    "\<And>e. preliminary (MsgProcessingError e)" "\<And>e. preliminary (MsgValidationError e)"
    "\<And>n. preliminary (MsgFieldDetected n)"
    by (simp_all add: preliminary_def is_verdict_def is_chain_line_def is_modification_line_def)
  have p2: "\<And>m. m \<in> set trust_log \<Longrightarrow> preliminary m"
    using preliminary_trust_context [of _ env] by (simp add: tc)
  show "preliminary m"
  proof (cases "pdf_exists env")
    case False
    with mem show ?thesis using p0 p2 preliminary_header [of m env]
      by (auto simp: main_def tc)
  next
    case ex: True
    show ?thesis
    proof (cases "embedded_signatures env")
      case (Inl e)
      with mem ex show ?thesis using p0 p2 preliminary_header [of m env]
        by (auto simp: main_def tc process_pdf_def)
    next
      case (Inr signatures)
      show ?thesis
      proof (cases signatures)
        case Nil
        with mem ex Inr show ?thesis using p0 p2 preliminary_header [of m env]
          by (auto simp: main_def tc process_pdf_def)
      next
        case (Cons sg others)
        obtain read_log binding where rd: "read_sig_object sg = (read_log, binding)"
          by (cases "read_sig_object sg")
        obtain hash_log raised where hs:
          "recompute_hash (full_pdf env) binding = (hash_log, raised)"
          by (cases "recompute_hash (full_pdf env) binding")
        obtain status err where tv:
          "try_validation (validate_pdf_signature env sg) trust_ctx = (status, err)"
          by (cases "try_validation (validate_pdf_signature env sg) trust_ctx")
        have p3: "\<And>m. m \<in> set read_log \<Longrightarrow> preliminary m"
          using preliminary_read_sig_object [of _ sg] by (simp add: rd)
        have p4: "\<And>m. m \<in> set hash_log \<Longrightarrow> preliminary m"
          using preliminary_recompute_hash [of _ "full_pdf env" binding] by (simp add: hs)
        from assms ex Inr Cons rd hs tc tv have ns: "raised = None \<Longrightarrow> status = None"
          by (auto simp: reported_status_def)
        show ?thesis
        proof (cases raised)
          case None
          with ns have "status = None" by simp
          with mem ex Inr Cons rd hs tv None show ?thesis
            using p0 p2 p3 p4 preliminary_header [of m env]
            by (auto simp: main_def tc process_pdf_def verify_signature_def Let_def
                  split: option.splits)
        next
          case (Some e)
          with mem ex Inr Cons rd hs tv show ?thesis
            using p0 p2 p3 p4 preliminary_header [of m env]
            by (auto simp: main_def tc process_pdf_def verify_signature_def Let_def
                  split: option.splits)
        qed
      qed
    qed
  qed
qed

lemma preliminary_report_details: "m \<in> set (report_details st) \<Longrightarrow> preliminary m"
  by (auto simp: report_details_def preliminary_def is_verdict_def is_chain_line_def
        is_modification_line_def split: option.splits)

lemma preliminary_report_signer: "m \<in> set (report_signer st) \<Longrightarrow> preliminary m"
  by (auto simp: report_signer_def preliminary_def is_verdict_def is_chain_line_def
        is_modification_line_def Let_def split: option.splits)

lemma preliminary_report_revocation: "m \<in> set (report_revocation st) \<Longrightarrow> preliminary m"
  by (auto simp: report_revocation_def preliminary_def is_verdict_def is_chain_line_def
        is_modification_line_def Let_def split: if_splits)

lemma preliminary_report_signing_time: "m \<in> set (report_signing_time st) \<Longrightarrow> preliminary m"
  by (auto simp: report_signing_time_def preliminary_def is_verdict_def is_chain_line_def
        is_modification_line_def split: option.splits)

lemmas preliminary_reports =
  preliminary_report_details preliminary_report_signer preliminary_report_revocation
  preliminary_report_signing_time

lemma verdicts_report_status:
  "filter is_verdict (report_status st) =
     [if valid st = Some True then MsgConclusionValid else MsgConclusionInvalid]"
  by (simp add: report_status_def filter_preliminary preliminary_reports)
     (simp add: report_chain_def report_modification_def report_conclusion_def is_verdict_def
        Let_def)

lemma chain_lines_report_status: "filter is_chain_line (report_status st) = report_chain st"
  by (simp add: report_status_def filter_preliminary preliminary_reports)
     (simp add: report_chain_def report_modification_def report_conclusion_def
        is_chain_line_def Let_def)

lemma modification_lines_report_status:
  "filter is_modification_line (report_status st) = report_modification st"
  by (simp add: report_status_def filter_preliminary preliminary_reports)
     (simp add: report_chain_def report_modification_def report_conclusion_def
        is_modification_line_def Let_def)

lemma not_report_line_Done:
  "\<not> is_verdict MsgDone" "\<not> is_chain_line MsgDone" "\<not> is_modification_line MsgDone"
  by (simp_all add: is_verdict_def is_chain_line_def is_modification_line_def)

lemma verdicts_main_with_status:
  assumes "reported_status env = Some st"
  shows "verdicts (main env) =
           [if valid st = Some True then MsgConclusionValid else MsgConclusionInvalid]"
proof -
  from main_with_status [OF assms] obtain before
    where m: "main env = before @ report_status st @ [MsgDone]"
      and p: "\<forall>m \<in> set before. preliminary m" by blast
  show ?thesis
    by (simp add: verdicts_def m filter_preliminary [OF p] verdicts_report_status
          not_report_line_Done)
qed

lemma verdicts_main_without_status:
  assumes "reported_status env = None"
  shows "verdicts (main env) = []"
  using main_without_status [OF assms] by (simp add: verdicts_def filter_preliminary)

lemma start_ignores_signatures:
  "trust_context (env\<lparr>embedded_signatures := sigs\<rparr>) = trust_context env"
  "header (env\<lparr>embedded_signatures := sigs\<rparr>) = header env"
  "pdf_exists (env\<lparr>embedded_signatures := sigs\<rparr>) = pdf_exists env"
  "full_pdf (env\<lparr>embedded_signatures := sigs\<rparr>) = full_pdf env"
  "validate_pdf_signature (env\<lparr>embedded_signatures := sigs\<rparr>) = validate_pdf_signature env"
  by (simp_all add: trust_context_def header_def)

lemma verify_signature_ignores_signatures:
  "verify_signature (env\<lparr>embedded_signatures := sigs\<rparr>) trust_ctx sg
     = verify_signature env trust_ctx sg"
  unfolding verify_signature_def start_ignores_signatures by (rule refl)

lemma process_pdf_first:
  "process_pdf (env\<lparr>embedded_signatures := Inr (sg # others)\<rparr>) trust_ctx
     = verify_signature env trust_ctx sg"
  by (simp add: process_pdf_def verify_signature_ignores_signatures)

lemma main_ignores_later_signatures:
  assumes "embedded_signatures env = Inr (sg # others)"
  shows "main (env\<lparr>embedded_signatures := Inr (sg # others')\<rparr>) = main env"
proof -
  have first: "process_pdf env trust_ctx = verify_signature env trust_ctx sg" for trust_ctx
    using assms by (simp add: process_pdf_def)
  show ?thesis
    unfolding main_def start_ignores_signatures process_pdf_first first by (rule refl)
qed

text \<open>The whole log for an existing file with at least one signature: every line after
  the start comes from the first signature.\<close>

lemma main_first_signature:
  assumes "pdf_exists env" and "embedded_signatures env = Inr (sg # others)"
    and "read_sig_object sg = (read_log, binding)"
    and "recompute_hash (full_pdf env) binding = (hash_log, raised)"
    and "try_validation (validate_pdf_signature env sg) (snd (trust_context env)) = (status, err)"
  shows "main env =
           header env @ fst (trust_context env)
             @ MsgFieldDetected (display_name sg) # read_log @ hash_log
             @ (case raised of
                  Some e \<Rightarrow> [MsgProcessingError e, MsgDone]
                | None \<Rightarrow>
                    MsgVerifyStart # (case err of Some e \<Rightarrow> [MsgValidationError e] | None \<Rightarrow> [])
                      @ (case status of
                           None \<Rightarrow> [MsgStatusNone]
                         | Some st \<Rightarrow> report_status st @ [MsgDone]))"
proof -
  obtain trust_log trust_ctx where tc: "trust_context env = (trust_log, trust_ctx)"
    by (cases "trust_context env")
  from assms(5) have tv:
    "try_validation (validate_pdf_signature env sg) trust_ctx = (status, err)"
    by (simp add: tc)
  show ?thesis
    by (cases raised; cases status)
       (simp_all add: main_def tc assms(1-4) tv process_pdf_def verify_signature_def Let_def)
qed

lemma no_field_line:
  "filter is_field_line (header env) = []"
  "filter is_field_line (fst (trust_context env)) = []"
  "filter is_field_line (fst (read_sig_object sg)) = []"
  "filter is_field_line (fst (recompute_hash pdf binding)) = []"
  "filter is_field_line (report_status st) = []"
  by (auto simp: filter_empty_conv is_field_line_def header_def trust_context_def
        read_sig_object_def recompute_hash_def report_status_def report_details_def
        report_signer_def report_chain_def report_revocation_def report_signing_time_def
        report_modification_def report_conclusion_def Let_def
        split: pem_state.splits option.splits sum.splits if_splits)

lemma field_lines_main:
  assumes "pdf_exists env" and "embedded_signatures env = Inr (sg # others)"
  shows "filter is_field_line (main env) = [MsgFieldDetected (display_name sg)]"
proof -
  obtain read_log binding where rd: "read_sig_object sg = (read_log, binding)"
    by (cases "read_sig_object sg")
  obtain hash_log raised where hs: "recompute_hash (full_pdf env) binding = (hash_log, raised)"
    by (cases "recompute_hash (full_pdf env) binding")
  obtain status err where tv:
    "try_validation (validate_pdf_signature env sg) (snd (trust_context env)) = (status, err)"
    by (cases "try_validation (validate_pdf_signature env sg) (snd (trust_context env))")
  have r: "filter is_field_line read_log = []"
    using no_field_line(3) [of sg] by (simp add: rd)
  have h: "filter is_field_line hash_log = []"
    using no_field_line(4) [of "full_pdf env" binding] by (simp add: hs)
  show ?thesis
    by (simp add: main_first_signature [OF assms rd hs tv] no_field_line r h
          is_field_line_def split: option.splits)
qed

lemma verdicts_main:
  "verdicts (main env) =
     (case reported_status env of
        Some st \<Rightarrow> [if valid st = Some True then MsgConclusionValid else MsgConclusionInvalid]
      | None \<Rightarrow> [])"
  by (cases "reported_status env")
     (simp_all add: verdicts_main_with_status verdicts_main_without_status)

lemmas sample_run =
  main_def process_pdf_def verify_signature_def trust_context_def header_def
  sample_environment_def sample_signature_def sample_status_def read_sig_object_def
  recompute_hash_def compute_sha256_range_four try_validation_def truthy_str_def
  truthy_list_def report_status_def report_details_def report_signer_def
  report_chain_def report_revocation_def report_signing_time_def
  report_modification_def report_conclusion_def or_obj_def truthy_obj_def display_name_def

lemma reported_status_sample:
  "reported_status (sample_environment (sample_signature name # others) (Some st)) = Some st"
  by (simp add: reported_status_def sample_environment_def sample_signature_def
        read_sig_object_def recompute_hash_def compute_sha256_range_four try_validation_def
        truthy_list_def)

lemma upper_hex_digit: "is_upper_hex (upper_char (hex_digit n))"
proof -
  have "\<forall>c \<in> set ''0123456789abcdef''. is_upper_hex (upper_char c)"
    by (simp add: upper_char_def is_upper_hex_def)
  then show ?thesis using hex_digit_lower by blast
qed

lemma format_fp_bytes:
  "format_fp (FpBytes bs) = str_join '' '' (map (\<lambda>b. str_upper (hex_byte b)) bs)"
proof -
  have "pairs (str_upper (bytes_hex bs)) = map (\<lambda>b. str_upper (hex_byte b)) bs"
    by (induction bs) (simp_all add: bytes_hex_def str_upper_def hex_byte_def)
  then show ?thesis by (simp add: format_fp_def)
qed

lemma format_fp_bytes_rendering:
  "bs \<noteq> [] \<Longrightarrow> hex_pairs_rendering (format_fp (FpBytes bs))"
proof (induction bs rule: list_nonempty_induct)
  case (single b)
  show ?case
    by (simp add: format_fp_bytes str_upper_def hex_byte_def upper_hex_digit)
next
  case (cons b bs)
  then obtain c cs where "bs = c # cs" by (cases bs) auto
  with cons show ?case
    by (simp add: format_fp_bytes str_upper_def hex_byte_def upper_hex_digit)
qed

section \<open>Verification of a document\<close>

text \<open>C2, as the code has it. The claim asks for one report per embedded signature. main
  takes \<open>signatures[0]\<close> and never looks at the others: for a document with the two valid
  signatures \<open>Sig1\<close> and \<open>Sig2\<close> the log holds one verdict, and \<open>Sig2\<close> is not
  mentioned.\<close>

theorem main_skips_second_signature_counterexample:
  "verdicts (main (sample_environment [sample_signature ''Sig1'', sample_signature ''Sig2'']
                     (Some (sample_status (Some NONE))))) = [MsgConclusionValid]
     \<and> MsgFieldDetected ''Sig2''
          \<notin> set (main (sample_environment [sample_signature ''Sig1'', sample_signature ''Sig2'']
                          (Some (sample_status (Some NONE)))))"
  by (simp add: main_def process_pdf_def verify_signature_def trust_context_def header_def
        sample_environment_def sample_signature_def sample_status_def read_sig_object_def
        recompute_hash_def compute_sha256_range_four try_validation_def truthy_str_def
        truthy_list_def report_status_def report_details_def report_signer_def
        report_chain_def report_revocation_def report_signing_time_def
        report_modification_def report_conclusion_def or_obj_def truthy_obj_def display_name_def verdicts_def is_verdict_def)

text \<open>C2, amended. For every existing document in which the reader finds at least one
  signature, verification examines \<open>signatures[0]\<close> and no other: the log has exactly one
  signature-field line, that of the first signature; it has exactly one verdict, read
  from the first signature's validation status, when the hash step raises nothing and
  validation returns a status for that signature, and no verdict otherwise; and the
  entries of the signature list after the first are never read, so that any other tail
  of the list (file bytes and the library's answers being the same) gives the same log.\<close>

theorem main_reports_first_signature_only:
  assumes "pdf_exists env" and "embedded_signatures env = Inr (sg # others)"
  shows "filter is_field_line (main env) = [MsgFieldDetected (display_name sg)]
         \<and> verdicts (main env) =
             (case reported_status env of
                Some st \<Rightarrow>
                  [if valid st = Some True then MsgConclusionValid else MsgConclusionInvalid]
              | None \<Rightarrow> [])
         \<and> (\<forall>others'. main (env\<lparr>embedded_signatures := Inr (sg # others')\<rparr>) = main env)"
  using assms
  by (simp add: field_lines_main verdicts_main main_ignores_later_signatures)

theorem main_reports_first_signature_only_witness:
  "filter is_field_line
     (main (sample_environment [sample_signature ''Sig1'', sample_signature ''Sig2'']
              (Some (sample_status (Some NONE)))))
     = [MsgFieldDetected ''Sig1'']
   \<and> verdicts
       (main (sample_environment [sample_signature ''Sig1'', sample_signature ''Sig2'']
                (Some (sample_status (Some NONE)))))
     = [MsgConclusionValid]"
  using main_reports_first_signature_only
    [of "sample_environment [sample_signature ''Sig1'', sample_signature ''Sig2'']
           (Some (sample_status (Some NONE)))"
        "sample_signature ''Sig1''" "[sample_signature ''Sig2'']"]
    reported_status_sample [of "''Sig1''" "[sample_signature ''Sig2'']" "sample_status (Some NONE)"]
  by (simp add: sample_environment_def sample_signature_def sample_status_def
        display_name_def truthy_str_def)

text \<open>C5, as the code has it. The claim asks for four levels reported as distinct
  outcomes. The report on a signature with level \<open>ANNOTATION_OR_CONTENT_CHANGE\<close> and the
  report on the same signature with level \<open>UNKNOWN\<close> are the same log.\<close>

theorem modification_levels_merged_counterexample:
  "main (sample_environment [sample_signature ''FooterSig'']
           (Some (sample_status (Some ANNOTATION_OR_CONTENT_CHANGE))))
     = main (sample_environment [sample_signature ''FooterSig'']
               (Some (sample_status (Some UNKNOWN))))"
  by (simp add: sample_run)

text \<open>C5, amended. When main has a validation status for the first signature, its log has
  exactly one line on modification, chosen from the level in that status in this order:
  \<open>NONE\<close> gives "no change after signing"; else \<open>FORM_FILLING\<close> gives "form filled after
  signing"; every other level, \<open>ANNOTATION_OR_CONTENT_CHANGE\<close> and \<open>UNKNOWN\<close> alike, and a
  missing level give the one line "changed after signing or undetermined".\<close>

theorem modification_report_order:
  assumes "reported_status env = Some st"
  shows "modification_lines (main env) =
           [if modification_level st = Some NONE then MsgModNone
            else if modification_level st = Some FORM_FILLING then MsgModFormFilling
            else MsgModChangedOrUnknown]"
proof -
  from main_with_status [OF assms] obtain before
    where m: "main env = before @ report_status st @ [MsgDone]"
      and p: "\<forall>m \<in> set before. preliminary m" by blast
  show ?thesis
    by (simp add: modification_lines_def m filter_preliminary [OF p]
          modification_lines_report_status not_report_line_Done report_modification_def Let_def)
qed

theorem modification_report_order_witness:
  "modification_lines (main (sample_environment [sample_signature ''FooterSig'']
                               (Some (sample_status (Some FORM_FILLING)))))
     = [MsgModFormFilling]"
  using modification_report_order [OF reported_status_sample,
          of "''FooterSig''" "[]" "sample_status (Some FORM_FILLING)"]
  by (simp add: sample_status_def)

text \<open>C6, as the code has it. The claim is for every signature. In the file below the
  library finds the second signature, \<open>Sig2\<close>, valid and its chain not trusted; the log
  says nothing of \<open>Sig2\<close>: its chain line and its verdict are those of \<open>Sig1\<close>, invalid.\<close>

theorem second_signature_unreported_counterexample:
  "validate_pdf_signature two_signature_environment (sample_signature ''Sig2'')
       (KwVc (Some (ValidationContext None True)))
     = Returns (Some (sample_status (Some NONE)))
   \<and> valid (sample_status (Some NONE)) = Some True
   \<and> trusted (sample_status (Some NONE)) = Some False
   \<and> chain_lines (main two_signature_environment) = [MsgChainInvalid]
   \<and> verdicts (main two_signature_environment) = [MsgConclusionInvalid]
   \<and> MsgFieldDetected ''Sig2'' \<notin> set (main two_signature_environment)"
  by (simp add: sample_run two_signature_environment_def sample_invalid_status_def
        chain_lines_def is_chain_line_def verdicts_def is_verdict_def)

text \<open>C6, amended. For the first signature of a document, when validation returns a
  status for it, trust and validity are reported from the \<open>trusted\<close> and \<open>valid\<close> attributes
  of that status, each on its own: the chain line says "trusted" when \<open>trusted\<close> is
  \<open>True\<close>, else "signature valid, root CA not determined" when \<open>valid\<close> holds, else
  "invalid"; the verdict says "signature valid" exactly when \<open>valid\<close> holds, whatever
  \<open>trusted\<close> is. A valid signature with an untrusted chain is so reported as valid and
  not trusted.\<close>

theorem trust_and_validity_reported:
  assumes "reported_status env = Some st"
  shows "chain_lines (main env) =
           [if trusted st = Some True then MsgChainTrusted
            else if valid st = Some True then MsgChainValidUnknownRoot
            else MsgChainInvalid]
         \<and> verdicts (main env) =
             [if valid st = Some True then MsgConclusionValid else MsgConclusionInvalid]"
proof -
  from main_with_status [OF assms] obtain before
    where m: "main env = before @ report_status st @ [MsgDone]"
      and p: "\<forall>m \<in> set before. preliminary m" by blast
  have "chain_lines (main env) = report_chain st"
    by (simp add: chain_lines_def m filter_preliminary [OF p] chain_lines_report_status
          not_report_line_Done)
  with assms show ?thesis
    by (simp add: report_chain_def verdicts_main_with_status)
qed

theorem trust_and_validity_reported_witness:
  "chain_lines (main (sample_environment [sample_signature ''FooterSig'']
                        (Some (sample_status (Some NONE))))) = [MsgChainValidUnknownRoot]
     \<and> verdicts (main (sample_environment [sample_signature ''FooterSig'']
                          (Some (sample_status (Some NONE))))) = [MsgConclusionValid]"
  using trust_and_validity_reported [OF reported_status_sample,
          of "''FooterSig''" "[]" "sample_status (Some NONE)"]
  by (simp add: sample_status_def)

text \<open>C7, on a fingerprint given as a string. The library renders \<open>sha1_fingerprint\<close> as
  uppercase pairs with spaces, such as \<open>AB CD EF\<close>; \<open>format_fp\<close> cuts that string itself
  into pairs, spaces included, and joins them with spaces. The result is not a sequence
  of hexadecimal pairs. (A fingerprint given as bytes is rendered as the claim says:
  \<open>format_fp_bytes_rendering\<close>.)\<close>

theorem format_fp_string_fingerprint:
  "format_fp (FpStr ''AB CD EF'') = ''AB  C D  EF''
     \<and> \<not> hex_pairs_rendering (format_fp (FpStr ''AB CD EF''))"
  by (simp add: format_fp_def is_hex_char_def str_upper_def is_upper_hex_def)

text \<open>C8. For an existing document in which the reader finds no signature, main logs the
  header, the line on the trust context and "no signature found", and nothing else: no
  error line, and main returns.\<close>

theorem no_signature_reported:
  assumes "pdf_exists env" and "embedded_signatures env = Inr []"
  shows "main env = header env @ fst (trust_context env) @ [MsgNoSignature]
           \<and> filter is_error_line (main env) = []"
proof -
  obtain trust_log trust_ctx where tc: "trust_context env = (trust_log, trust_ctx)"
    by (cases "trust_context env")
  have m: "main env = header env @ trust_log @ [MsgNoSignature]"
    using assms by (simp add: main_def tc process_pdf_def)
  have "filter is_error_line trust_log = []"
    using tc by (auto simp: trust_context_def is_error_line_def split: pem_state.splits)
  then show ?thesis
    by (simp add: m tc header_def is_error_line_def)
qed

theorem no_signature_reported_witness:
  "main (sample_environment [] None)
     = [MsgBanner, MsgTime ''2025-01-01 00:00:00'', MsgFile, MsgRule, MsgNoPem, MsgNoSignature]"
  using no_signature_reported [of "sample_environment [] None"]
  by (simp add: sample_environment_def header_def trust_context_def)

end
